theory Spec2Isabelle
  imports Complex_Main "HOL-Library.Word"
begin

section \<open>Acoustic feature extraction (backend/app.py)\<close>

text \<open>
  A shallow embedding of the feature-extraction route of \<^verbatim>\<open>backend/app.py\<close>:
  \<^verbatim>\<open>compute_basic_features\<close>, \<^verbatim>\<open>compute_mfcc\<close>, \<^verbatim>\<open>extract_praat_features\<close> and the
  route \<^verbatim>\<open>extract_features\<close>.

  Conventions of the embedding.
  \<^item> Python floats are idealised as \<^typ>\<open>real\<close>: the rounding of sums, products,
    quotients and square roots, infinities, NaN and the negative zero are not
    represented. The logarithm and the exponential are not idealised: \<^verbatim>\<open>np.log\<close> and
    \<^verbatim>\<open>np.exp\<close> are functions of the library, whose double-precision results are not
    those of the exact functions. An undefined value that the pitch and formant queries
    report (None or NaN) is \<^term>\<open>None\<close> of an option type.
  \<^item> A raised exception is the \<^term>\<open>Inl\<close> branch of a sum.
  \<^item> The functions of numpy, scipy and parselmouth are not code of the program. They are
    the fields of a record \<open>lib\<close> that every function takes as its first argument, so a
    theorem holds for whatever these libraries compute; each call may raise.
    Only \<^verbatim>\<open>np.frombuffer\<close> and the elementwise numpy arithmetic are written out.
  \<^item> What the program prints is a list of events that each function returns beside its
    value.
\<close>

subsection \<open>Errors, library interface, printed output\<close>

datatype error =
    ValueError string
  | ZeroDivisionError
  | PraatError string
  | OtherError string

record ('s, 'p, 'f, 'q) lib =
  \<comment> \<open>\<^verbatim>\<open>np.fft.fft(samples)\<close>\<close>
  np_fft :: "real list \<Rightarrow> error + complex list"
  \<comment> \<open>\<^verbatim>\<open>signal.periodogram(x, fs=sample_rate, scaling="spectrum", window="hann")\<close>:
      the arrays \<^verbatim>\<open>freqs\<close> and \<^verbatim>\<open>psd\<close>, of equal length, as one list of pairs\<close>
  periodogram :: "real list \<Rightarrow> int \<Rightarrow> error + (real \<times> real) list"
  \<comment> \<open>\<^verbatim>\<open>np.log\<close> and \<^verbatim>\<open>np.exp\<close>, on one element\<close>
  np_log :: "real \<Rightarrow> real"
  np_exp :: "real \<Rightarrow> real"
  \<comment> \<open>\<^verbatim>\<open>parselmouth.Sound(samples, sampling_frequency=sample_rate)\<close>\<close>
  Sound :: "real list \<Rightarrow> int \<Rightarrow> error + 's"
  \<comment> \<open>\<^verbatim>\<open>sound.duration\<close>\<close>
  duration :: "'s \<Rightarrow> real"
  \<comment> \<open>\<^verbatim>\<open>sound.to_pitch_ac(time_step=0.01, pitch_floor=50.0, pitch_ceiling=600.0)\<close>\<close>
  to_pitch_ac :: "'s \<Rightarrow> error + 'p"
  \<comment> \<open>the truth value of the pitch object in \<^verbatim>\<open>if pitch:\<close>\<close>
  pitch_truthy :: "'p \<Rightarrow> bool"
  \<comment> \<open>\<^verbatim>\<open>pitch.get_value_at_time(t)\<close>\<close>
  pitch_value_at_time :: "'p \<Rightarrow> real \<Rightarrow> error + real option"
  \<comment> \<open>\<^verbatim>\<open>sound.to_formant_burg(time_step=0.01, max_number_of_formants=5.0, maximum_formant=5500.0)\<close>\<close>
  to_formant_burg :: "'s \<Rightarrow> error + 'f"
  \<comment> \<open>the truth value of the formant object in \<^verbatim>\<open>if formant:\<close>\<close>
  formant_truthy :: "'f \<Rightarrow> bool"
  \<comment> \<open>\<^verbatim>\<open>formant.get_value_at_time(formant_number=k, time=t)\<close>\<close>
  formant_value_at_time :: "'f \<Rightarrow> nat \<Rightarrow> real \<Rightarrow> error + real option"
  \<comment> \<open>\<^verbatim>\<open>praat.call(sound, "To PointProcess (periodic, cc)", 50.0, 600.0)\<close>\<close>
  to_point_process :: "'s \<Rightarrow> error + 'q"
  \<comment> \<open>the truth value of the point process in \<^verbatim>\<open>if point_process:\<close>\<close>
  point_process_truthy :: "'q \<Rightarrow> bool"
  \<comment> \<open>\<^verbatim>\<open>praat.call(point_process, "Get number of points")\<close>\<close>
  number_of_points :: "'q \<Rightarrow> error + real"
  \<comment> \<open>\<^verbatim>\<open>praat.call(point_process, "Get jitter (local)", 0.0, duration, 0.0001, 0.02, 1.3)\<close>\<close>
  get_jitter_local :: "'q \<Rightarrow> real \<Rightarrow> error + real"
  \<comment> \<open>\<^verbatim>\<open>praat.call([sound, point_process], "Get shimmer (local)", 0.0, duration, 0.0001, 0.02, 1.3, 1.6)\<close>\<close>
  get_shimmer_local :: "'s \<Rightarrow> 'q \<Rightarrow> real \<Rightarrow> error + real"

subsection \<open>Numpy helpers\<close>

definition np_mean :: "real list \<Rightarrow> real" where
  \<comment> \<open>\<^verbatim>\<open>np.mean\<close>; every call of the program on a possibly empty array is guarded or its
      value is unused then\<close>
  "np_mean xs = sum_list xs / real (length xs)"

definition slice :: "'a list \<Rightarrow> nat \<Rightarrow> nat \<Rightarrow> 'a list" where
  \<comment> \<open>\<^verbatim>\<open>xs[a:b]\<close> for \<open>0 \<le> a\<close>, \<open>0 \<le> b\<close>: never raises, cut at the end of the list\<close>
  "slice xs a b = take (b - a) (drop a xs)"

subsection \<open>compute_mfcc\<close>

text \<open>
  \<^verbatim>\<open>start = int((i * len(magnitude)) / num_coeffs)\<close> and
  \<^verbatim>\<open>end = int(((i + 1) * len(magnitude)) / num_coeffs)\<close>: the quotient of two
  non-negative integers, truncated, which is the integer quotient.
\<close>

definition band_start :: "nat \<Rightarrow> nat \<Rightarrow> nat \<Rightarrow> nat" where
  "band_start L K i = (i * L) div K"

definition band_end :: "nat \<Rightarrow> nat \<Rightarrow> nat \<Rightarrow> nat" where
  "band_end L K i = ((i + 1) * L) div K"

definition band_coeff :: "real list \<Rightarrow> nat \<Rightarrow> nat \<Rightarrow> real" where
  "band_coeff magnitude K i =
     (let start = band_start (length magnitude) K i;
          end = band_end (length magnitude) K i
      in if end > start then np_mean (slice magnitude start end) else 0)"

definition fft_magnitude :: "complex list \<Rightarrow> real list" where
  \<comment> \<open>\<^verbatim>\<open>np.abs(fft[:len(fft)//2])\<close>\<close>
  "fft_magnitude fft = map cmod (take (length fft div 2) fft)"

definition compute_mfcc ::
  "('s, 'p, 'f, 'q) lib \<Rightarrow> real list \<Rightarrow> int \<Rightarrow> int \<Rightarrow> real list" where
  "compute_mfcc l samples sample_rate num_coeffs =
     (case np_fft l samples of
        Inl e \<Rightarrow> replicate (nat num_coeffs) 0
      | Inr fft \<Rightarrow>
          map (band_coeff (fft_magnitude fft) (nat num_coeffs)) [0..<nat num_coeffs])"

subsection \<open>compute_basic_features\<close>

record basic_features =
  rms :: real
  zcr :: real
  spectralCentroid :: real
  spectralFlatness :: real

definition py_div :: "real \<Rightarrow> real \<Rightarrow> error + real" where
  \<comment> \<open>the division of two Python floats raises on a zero divisor\<close>
  "py_div a b = (if b = 0 then Inl ZeroDivisionError else Inr (a / b))"

definition signbit :: "real \<Rightarrow> bool" where
  "signbit v = (v < 0)"

fun np_diff :: "bool list \<Rightarrow> bool list" where
  \<comment> \<open>\<^verbatim>\<open>np.diff\<close> of a boolean array: \<^verbatim>\<open>a[i+1] != a[i]\<close>\<close>
  "np_diff (a # b # rest) = (b \<noteq> a) # np_diff (b # rest)"
| "np_diff _ = []"

definition zero_crossings :: "real list \<Rightarrow> nat" where
  \<comment> \<open>\<^verbatim>\<open>np.sum(np.abs(np.diff(np.signbit(x))))\<close>\<close>
  "zero_crossings x = length (filter id (np_diff (map signbit x)))"

definition psd_floor :: real where
  "psd_floor = 1 / 10 ^ 20"

definition floored_psd :: "(real \<times> real) list \<Rightarrow> real list" where
  \<comment> \<open>\<^verbatim>\<open>psd = np.maximum(psd, 1e-20)\<close>\<close>
  "floored_psd bins = map (\<lambda>b. max (snd b) psd_floor) bins"

definition spectral_centroid :: "(real \<times> real) list \<Rightarrow> real" where
  \<comment> \<open>numpy scalars: the division itself does not raise\<close>
  "spectral_centroid bins =
     (let freqs = map fst bins; psd = floored_psd bins
      in if sum_list psd > 0
         then sum_list (map2 (*) freqs psd) / sum_list psd else 0)"

definition geom_mean :: "('s, 'p, 'f, 'q) lib \<Rightarrow> (real \<times> real) list \<Rightarrow> real" where
  \<comment> \<open>\<^verbatim>\<open>float(np.exp(np.mean(np.log(psd))))\<close>\<close>
  "geom_mean l bins = np_exp l (np_mean (map (np_log l) (floored_psd bins)))"

definition arith_mean :: "(real \<times> real) list \<Rightarrow> real" where
  "arith_mean bins =
     (let psd = floored_psd bins in if length psd > 0 then np_mean psd else 0)"

definition spectral_flatness ::
  "('s, 'p, 'f, 'q) lib \<Rightarrow> (real \<times> real) list \<Rightarrow> error + real" where
  "spectral_flatness l bins =
     (if arith_mean bins > 0 then py_div (geom_mean l bins) (arith_mean bins) else Inr 0)"

definition compute_basic_features ::
  "('s, 'p, 'f, 'q) lib \<Rightarrow> real list \<Rightarrow> int \<Rightarrow> error + basic_features" where
  "compute_basic_features l samples sample_rate =
     (let x = samples;
          rms_v = (if length x > 0 then sqrt (np_mean (map (\<lambda>v. v\<^sup>2) x)) else 0)
      in case (if length x > 1
               then py_div (real (zero_crossings x)) (real (length x - 1))
               else Inr 0) of
           Inl e \<Rightarrow> Inl e
         | Inr zcr_v \<Rightarrow>
             if length x = 0
             then Inr \<lparr>rms = 0, zcr = 0, spectralCentroid = 0, spectralFlatness = 0\<rparr>
             else (case periodogram l x sample_rate of
                     Inl e \<Rightarrow> Inl e
                   | Inr bins \<Rightarrow>
                       (case spectral_flatness l bins of
                          Inl e \<Rightarrow> Inl e
                        | Inr flatness \<Rightarrow>
                            Inr \<lparr>rms = rms_v, zcr = zcr_v,
                                 spectralCentroid = spectral_centroid bins,
                                 spectralFlatness = flatness\<rparr>)))"

subsection \<open>extract_praat_features\<close>

record praat_features =
  f0_mean :: real
  f0_range :: real
  jitter :: real
  shimmer :: real
  f1 :: real
  f2 :: real
  speech_rate :: real

datatype log_event =
    PraatExtractionError error
  | JitterShimmerWarning error
  | FeatureReport basic_features "real list" praat_features nat
  | RouteError error

definition praat_defaults :: praat_features where
  "praat_defaults =
     \<lparr>f0_mean = 0, f0_range = 0, jitter = 0, shimmer = 0, f1 = 0, f2 = 0, speech_rate = 0\<rparr>"

definition arange :: "real \<Rightarrow> real list" where
  \<comment> \<open>\<^verbatim>\<open>np.arange(0, duration, 0.01)\<close>: \<open>\<lceil>duration / 0.01\<rceil>\<close> instants, none when
      the duration is not positive. The quotient is exact here; numpy rounds it before
      taking the ceiling, which can give one instant more.\<close>
  "arange dur = map (\<lambda>i. real i * (1 / 100)) [0..<nat \<lceil>dur / (1 / 100)\<rceil>]"

definition keep_positive :: "real option \<Rightarrow> real list \<Rightarrow> real list" where
  \<comment> \<open>\<^verbatim>\<open>if v is not None and v > 0: values.append(v)\<close>\<close>
  "keep_positive v vs = (case v of None \<Rightarrow> vs | Some f \<Rightarrow> if f > 0 then f # vs else vs)"

fun collect_f0 :: "(real \<Rightarrow> error + real option) \<Rightarrow> real list \<Rightarrow> error + real list" where
  "collect_f0 g [] = Inr []"
| "collect_f0 g (t # ts) =
     (case g t of
        Inl e \<Rightarrow> Inl e
      | Inr v \<Rightarrow>
          (case collect_f0 g ts of
             Inl e \<Rightarrow> Inl e
           | Inr vs \<Rightarrow> Inr (keep_positive v vs)))"

fun collect_formants ::
  "(nat \<Rightarrow> real \<Rightarrow> error + real option) \<Rightarrow> real list \<Rightarrow> error + (real list \<times> real list)" where
  "collect_formants g [] = Inr ([], [])"
| "collect_formants g (t # ts) =
     (case g 1 t of
        Inl e \<Rightarrow> Inl e
      | Inr v1 \<Rightarrow>
          (case g 2 t of
             Inl e \<Rightarrow> Inl e
           | Inr v2 \<Rightarrow>
               (case collect_formants g ts of
                  Inl e \<Rightarrow> Inl e
                | Inr (a, b) \<Rightarrow> Inr (keep_positive v1 a, keep_positive v2 b))))"

definition pitch_f0_values ::
  "('s, 'p, 'f, 'q) lib \<Rightarrow> 'p \<Rightarrow> real \<Rightarrow> error + real list" where
  \<comment> \<open>lines 75-87: the F0 values of the voiced frames\<close>
  "pitch_f0_values l pitch dur =
     (if pitch_truthy l pitch
      then collect_f0 (pitch_value_at_time l pitch) (arange dur)
      else Inr [])"

definition f0_statistics :: "real list \<Rightarrow> real \<times> real" where
  \<comment> \<open>lines 89-101: \<open>(f0_mean, f0_range)\<close>; \<^verbatim>\<open>f0_std\<close> is computed and never returned\<close>
  "f0_statistics f0_values =
     (if length f0_values > 0
      then (np_mean f0_values, Max (set f0_values) - Min (set f0_values))
      else (0, 0))"

definition formant_values ::
  "('s, 'p, 'f, 'q) lib \<Rightarrow> 'f \<Rightarrow> real \<Rightarrow> error + (real list \<times> real list)" where
  \<comment> \<open>lines 110-122\<close>
  "formant_values l formant dur =
     (if formant_truthy l formant
      then collect_formants (formant_value_at_time l formant) (arange dur)
      else Inr ([], []))"

definition formant_mean :: "real list \<Rightarrow> real" where
  \<comment> \<open>lines 124-127\<close>
  "formant_mean vs = (if length vs > 0 then np_mean vs else 0)"

definition perturbation ::
  "('s, 'p, 'f, 'q) lib \<Rightarrow> 's \<Rightarrow> real \<Rightarrow> (real \<times> real) \<times> log_event list" where
  \<comment> \<open>lines 129-158: \<open>(jitter, shimmer)\<close> and the warning printed\<close>
  "perturbation l sound dur =
     (case to_point_process l sound of
        Inl e \<Rightarrow> ((0, 0), [JitterShimmerWarning e])
      | Inr point_process \<Rightarrow>
          if point_process_truthy l point_process
          then (case number_of_points l point_process of
                  Inl e \<Rightarrow> ((0, 0), [JitterShimmerWarning e])
                | Inr n_pulses \<Rightarrow>
                    if n_pulses > 1
                    then (((case get_jitter_local l point_process dur of
                              Inl e \<Rightarrow> 0 | Inr j \<Rightarrow> j * 100),
                           (case get_shimmer_local l sound point_process dur of
                              Inl e \<Rightarrow> 0 | Inr s \<Rightarrow> s * 100)), [])
                    else ((0, 0), []))
          else ((0, 0), []))"

definition estimate_speech_rate :: "real list \<Rightarrow> real \<Rightarrow> real" where
  \<comment> \<open>lines 160-171\<close>
  "estimate_speech_rate f0_values dur =
     (if length f0_values > 0
      then (let voiced_frames = length f0_values;
                voiced_duration = real voiced_frames * (1 / 100);
                words_estimate = voiced_duration / (1 / 2);
                rate = (if dur > 0 then (words_estimate / dur) * 60 else 0)
            in max 80 (min 200 rate))
      else 0)"

definition praat_analysis ::
  "('s, 'p, 'f, 'q) lib \<Rightarrow> real list \<Rightarrow> int \<Rightarrow> error + (praat_features \<times> log_event list)" where
  \<comment> \<open>the body of the outer \<^verbatim>\<open>try\<close>, lines 63-181\<close>
  "praat_analysis l samples sample_rate =
     (case Sound l samples sample_rate of
        Inl e \<Rightarrow> Inl e
      | Inr sound \<Rightarrow>
          (let dur = duration l sound in
           case to_pitch_ac l sound of
             Inl e \<Rightarrow> Inl e
           | Inr pitch \<Rightarrow>
               (case pitch_f0_values l pitch dur of
                  Inl e \<Rightarrow> Inl e
                | Inr f0_values \<Rightarrow>
                    (case to_formant_burg l sound of
                       Inl e \<Rightarrow> Inl e
                     | Inr formant \<Rightarrow>
                         (case formant_values l formant dur of
                            Inl e \<Rightarrow> Inl e
                          | Inr (f1_values, f2_values) \<Rightarrow>
                              (let (js, out) = perturbation l sound dur in
                               Inr (\<lparr>f0_mean = fst (f0_statistics f0_values),
                                     f0_range = snd (f0_statistics f0_values),
                                     jitter = fst js,
                                     shimmer = snd js,
                                     f1 = formant_mean f1_values,
                                     f2 = formant_mean f2_values,
                                     speech_rate = estimate_speech_rate f0_values dur\<rparr>,
                                    out)))))))"

definition extract_praat_features ::
  "('s, 'p, 'f, 'q) lib \<Rightarrow> real list \<Rightarrow> int \<Rightarrow> praat_features \<times> log_event list" where
  \<comment> \<open>lines 182-193: any exception of the body gives the defaults\<close>
  "extract_praat_features l samples sample_rate =
     (case praat_analysis l samples sample_rate of
        Inl e \<Rightarrow> (praat_defaults, [PraatExtractionError e])
      | Inr r \<Rightarrow> r)"

subsection \<open>The route extract_features\<close>

type_synonym byte = "8 word"

definition frombuffer_error :: error where
  "frombuffer_error = ValueError ''buffer size must be a multiple of element size''"

fun int16_pairs :: "byte list \<Rightarrow> 16 word list" where
  \<comment> \<open>two bytes a sample, the low byte first\<close>
  "int16_pairs (lo # hi # rest) = word_cat hi lo # int16_pairs rest"
| "int16_pairs _ = []"

definition frombuffer_int16 :: "byte list \<Rightarrow> error + 16 word list" where
  \<comment> \<open>\<^verbatim>\<open>np.frombuffer(audio_data, dtype=np.int16)\<close>: numpy raises a ValueError when the
      size of the buffer is not a multiple of the element size\<close>
  "frombuffer_int16 bs =
     (if odd (length bs) then Inl frombuffer_error else Inr (int16_pairs bs))"

definition decode_samples :: "byte list \<Rightarrow> error + real list" where
  \<comment> \<open>lines 308-309: \<^verbatim>\<open>np.frombuffer(data[44:], dtype=np.int16).astype(np.float32) / 32768.0\<close>\<close>
  "decode_samples data =
     (case frombuffer_int16 (drop 44 data) of
        Inl e \<Rightarrow> Inl e
      | Inr ws \<Rightarrow> Inr (map (\<lambda>w. real_of_int (sint w) / 32768) ws))"

record feature_record =
  \<comment> \<open>the JSON object of the response: the four basic features, \<^verbatim>\<open>mfcc\<close> and the seven
      advanced features, grouped by the function that computed them\<close>
  basic :: basic_features
  mfcc :: "real list"
  advanced :: praat_features

datatype response =
    Features feature_record
  | ClientError string
  | ServerError error

definition extract_features ::
  "('s, 'p, 'f, 'q) lib \<Rightarrow> byte list option \<Rightarrow> log_event list \<Rightarrow> response \<times> log_event list" where
  \<comment> \<open>the uploaded file (if the field is there) and the output printed so far; the
      response and the output printed after the request\<close>
  "extract_features l file console =
     (case file of
        None \<Rightarrow> (ClientError ''file field missing'', console)
      | Some data \<Rightarrow>
          if data = [] then (ClientError ''empty file'', console)
          else (case decode_samples data of
                  Inl e \<Rightarrow> (ServerError e, console @ [RouteError e])
                | Inr samples \<Rightarrow>
                    (case compute_basic_features l samples 16000 of
                       Inl e \<Rightarrow> (ServerError e, console @ [RouteError e])
                     | Inr basic_v \<Rightarrow>
                         (let mfcc_v = compute_mfcc l samples 16000 13;
                              (praat_v, out) = extract_praat_features l samples 16000
                          in (Features \<lparr>basic = basic_v, mfcc = mfcc_v, advanced = praat_v\<rparr>,
                              console @ out
                                @ [FeatureReport basic_v (take 5 mfcc_v) praat_v
                                     (length samples)])))))"

subsection \<open>Observations of a run\<close>

text \<open>
  Intermediate values of \<^verbatim>\<open>extract_praat_features\<close> that the properties below speak of:
  the list \<^verbatim>\<open>f0_values\<close> of the voiced frames and the number of pulses of the point
  process, each empty or zero when the run does not reach it.
\<close>

definition voiced_f0 :: "('s, 'p, 'f, 'q) lib \<Rightarrow> real list \<Rightarrow> int \<Rightarrow> real list" where
  "voiced_f0 l samples sample_rate =
     (case Sound l samples sample_rate of
        Inl e \<Rightarrow> []
      | Inr sound \<Rightarrow>
          (case to_pitch_ac l sound of
             Inl e \<Rightarrow> []
           | Inr pitch \<Rightarrow>
               (case pitch_f0_values l pitch (duration l sound) of
                  Inl e \<Rightarrow> []
                | Inr vs \<Rightarrow> vs)))"


definition band_width :: "nat \<Rightarrow> nat \<Rightarrow> nat \<Rightarrow> nat" where
  "band_width L K i = band_end L K i - band_start L K i"

subsection \<open>What the libraries are taken to guarantee\<close>



subsection \<open>A sample library for concrete runs\<close>

text \<open>
  The theorems below hold for every library. To run the program on a concrete buffer a
  library has to be chosen: this one answers with fixed pitch and pulse data, so that
  both the silent and the voiced paths of the program can be exercised.
\<close>

definition dft :: "real list \<Rightarrow> complex list" where
  "dft xs =
     map (\<lambda>k. \<Sum>n \<leftarrow> [0..<length xs].
            of_real (xs ! n) * cis (- 2 * pi * real k * real n / real (length xs)))
       [0..<length xs]"

definition numpy_fft :: "real list \<Rightarrow> error + complex list" where
  \<comment> \<open>the discrete Fourier transform; numpy rejects an empty array\<close>
  "numpy_fft xs =
     (if xs = [] then Inl (ValueError ''Invalid number of FFT data points (0) specified.'')
      else Inr (dft xs))"

definition zero_power_periodogram :: "real list \<Rightarrow> int \<Rightarrow> error + (real \<times> real) list" where
  \<comment> \<open>the periodogram of a silent signal: bin \<open>k\<close> at \<open>k * fs / n\<close> Hz, without power\<close>
  "zero_power_periodogram x fs =
     Inr (map (\<lambda>k. (real k * real_of_int fs / real (length x), 0)) [0..<length x div 2 + 1])"

definition sample_lib ::
  "(real list \<Rightarrow> int \<Rightarrow> error + (real \<times> real) list) \<Rightarrow> real option \<Rightarrow> real \<Rightarrow> real \<Rightarrow> real
     \<Rightarrow> (real, unit, unit, unit) lib" where
  \<comment> \<open>a sound is its duration; every frame has pitch \<open>f0\<close>, no formant is found; the point
      process has \<open>pulses\<close> points, local jitter \<open>j\<close> and local shimmer \<open>s\<close>; the
      logarithm and the exponential are the exact ones\<close>
  "sample_lib pg f0 pulses j s =
     \<lparr>np_fft = numpy_fft,
      periodogram = pg,
      np_log = ln,
      np_exp = exp,
      Sound = (\<lambda>samples fs. Inr (real (length samples) / real_of_int fs)),
      duration = (\<lambda>sound. sound),
      to_pitch_ac = (\<lambda>sound. Inr ()),
      pitch_truthy = (\<lambda>pitch. True),
      pitch_value_at_time = (\<lambda>pitch t. Inr f0),
      to_formant_burg = (\<lambda>sound. Inr ()),
      formant_truthy = (\<lambda>formant. True),
      formant_value_at_time = (\<lambda>formant k t. Inr None),
      to_point_process = (\<lambda>sound. Inr ()),
      point_process_truthy = (\<lambda>pp. True),
      number_of_points = (\<lambda>pp. Inr pulses),
      get_jitter_local = (\<lambda>pp dur. Inr j),
      get_shimmer_local = (\<lambda>sound pp dur. Inr s)\<rparr>"





section \<open>Properties\<close>

subsection \<open>Facts about the cepstral bands\<close>


lemma length_dft: "length (dft xs) = length xs"
  by (simp add: dft_def)

lemma length_fft_magnitude: "length (fft_magnitude f) = length f div 2"
  by (simp add: fft_magnitude_def)

lemma band_end_is_next_start: "band_end L K i = band_start L K (Suc i)"
  by (simp add: band_end_def band_start_def)

lemma band_start_le_end: "band_start L K i \<le> band_end L K i"
  by (simp add: band_end_def band_start_def div_le_mono)

lemma band_start_zero: "band_start L K 0 = 0"
  by (simp add: band_start_def)

lemma band_end_last: "0 < K \<Longrightarrow> band_end L K (K - 1) = L"
  by (simp add: band_end_def)

lemma band_end_le: "i < K \<Longrightarrow> band_end L K i \<le> L"
proof -
  assume i: "i < K"
  then have "Suc i \<le> K" by simp
  then have "Suc i * L \<le> K * L" by (rule mult_le_mono1)
  then have "(Suc i * L) div K \<le> (K * L) div K" by (rule div_le_mono)
  then show ?thesis using i by (simp add: band_end_def)
qed

lemma band_width_bounds:
  assumes "0 < K"
  shows "band_width L K i = L div K \<or> band_width L K i = L div K + 1"
proof -
  define a where "a = i * L"
  have e: "(a + L) div K = a div K + L div K + (a mod K + L mod K) div K"
    by (rule div_add1_eq)
  have "a mod K + L mod K < 2 * K"
    using assms by (simp add: add_less_mono mult_2)
  then have "(a mod K + L mod K) div K < 2"
    using assms by (simp add: less_mult_imp_div_less mult.commute)
  then have "(a mod K + L mod K) div K = 0 \<or> (a mod K + L mod K) div K = 1"
    by linarith
  then show ?thesis
    using e by (auto simp: band_width_def band_end_def band_start_def a_def algebra_simps)
qed

lemma slices_concat:
  "concat (map (\<lambda>i. slice xs (band_start L K i) (band_end L K i)) [0..<n])
     = take (band_start L K n) xs"
proof (induction n)
  case 0
  show ?case by (simp add: band_start_zero)
next
  case (Suc n)
  have le: "band_start L K n \<le> band_start L K (Suc n)"
    using band_start_le_end [of L K n] by (simp add: band_end_is_next_start)
  have "take (band_start L K n) xs @ slice xs (band_start L K n) (band_end L K n)
          = take (band_start L K (Suc n)) xs"
    using le by (simp add: slice_def band_end_is_next_start take_add [symmetric])
  with Suc show ?case by simp
qed

lemma widths_sum: "(\<Sum>i<n. band_width L K i) = band_start L K n"
proof (induction n)
  case 0 show ?case by (simp add: band_start_zero)
next
  case (Suc n)
  have le: "band_start L K n \<le> band_start L K (Suc n)"
    using band_start_le_end [of L K n] by (simp add: band_end_is_next_start)
  show ?case using Suc le by (simp add: band_width_def band_end_is_next_start)
qed

lemma equal_widths_iff:
  assumes "0 < K"
  shows "(\<forall>i<K. band_width L K i = L div K) \<longleftrightarrow> K dvd L"
proof
  assume a: "\<forall>i<K. band_width L K i = L div K"
  have "(\<Sum>i<K. band_width L K i) = (\<Sum>i<K. L div K)"
    by (rule sum.cong) (use a in auto)
  then have "band_start L K K = K * (L div K)" by (simp add: widths_sum)
  then have "L = K * (L div K)" using assms by (simp add: band_start_def)
  then show "K dvd L" by (metis dvd_triv_left)
next
  assume d: "K dvd L"
  then obtain q where q: "L = K * q" by (auto simp: dvd_def)
  have s: "(j * (K * q)) div K = j * q" for j
    using assms by (simp add: mult.left_commute)
  have w: "band_width L K i = Suc i * q - i * q" for i
    by (simp add: q band_width_def band_end_def band_start_def s del: mult_Suc)
  have "band_width L K i = L div K" for i
    using assms w [of i] by (simp add: q)
  then show "\<forall>i<K. band_width L K i = L div K" by simp
qed

lemma sum_list_slice:
  fixes xs :: "real list"
  assumes "e \<le> length xs"
  shows "sum_list (slice xs s e) = (\<Sum>k = s..<e. xs ! k)"
proof (cases "s \<le> e")
  case False
  then show ?thesis by (simp add: slice_def)
next
  case True
  have len: "length (slice xs s e) = e - s"
    using assms by (simp add: slice_def)
  have "sum_list (slice xs s e) = (\<Sum>i = 0..<e - s. slice xs s e ! i)"
    by (simp add: sum_list_sum_nth len)
  also have "\<dots> = (\<Sum>i = 0..<e - s. xs ! (i + s))"
    using assms by (intro sum.cong) (simp_all add: slice_def add.commute)
  also have "\<dots> = (\<Sum>k = 0 + s..<(e - s) + s. xs ! k)"
    by (rule sum.shift_bounds_nat_ivl [symmetric])
  finally show ?thesis using True by simp
qed

lemma band_coeff_explicit:
  assumes "i < K"
  shows "band_coeff (fft_magnitude fft) K i =
     (if i * (length fft div 2) div K < (i + 1) * (length fft div 2) div K
      then (\<Sum>k = i * (length fft div 2) div K..<(i + 1) * (length fft div 2) div K.
              cmod (fft ! k))
             / real ((i + 1) * (length fft div 2) div K - i * (length fft div 2) div K)
      else 0)"
proof -
  let ?m = "fft_magnitude fft"
  define L where "L = length fft div 2"
  define s where "s = i * L div K"
  define e where "e = (i + 1) * L div K"
  have len_m: "length ?m = L" by (simp add: length_fft_magnitude L_def)
  have bs: "band_start (length ?m) K i = s" by (simp add: band_start_def len_m s_def)
  have be: "band_end (length ?m) K i = e" by (simp add: band_end_def len_m e_def)
  have e_le: "e \<le> L" using band_end_le [OF assms, of L] by (simp add: band_end_def e_def)
  have "e - s \<le> L - s" using e_le by (rule diff_le_mono)
  then have len: "length (slice ?m s e) = e - s" by (simp add: slice_def len_m)
  have "sum_list (slice ?m s e) = (\<Sum>k = s..<e. ?m ! k)"
    by (rule sum_list_slice) (simp add: len_m e_le)
  also have "\<dots> = (\<Sum>k = s..<e. cmod (fft ! k))"
  proof (rule sum.cong [OF refl])
    fix k assume "k \<in> {s..<e}"
    then have "k < L" using e_le by simp
    then show "?m ! k = cmod (fft ! k)" by (simp add: fft_magnitude_def L_def)
  qed
  finally have sum: "sum_list (slice ?m s e) = (\<Sum>k = s..<e. cmod (fft ! k))" .
  have main: "band_coeff ?m K i =
                (if s < e then (\<Sum>k = s..<e. cmod (fft ! k)) / real (e - s) else 0)"
    unfolding band_coeff_def Let_def bs be np_mean_def len sum by simp
  show ?thesis using main unfolding s_def e_def L_def .
qed

subsection \<open>Facts about the basic analyser\<close>

lemma basic_empty:
  "compute_basic_features l [] sr
     = Inr \<lparr>rms = 0, zcr = 0, spectralCentroid = 0, spectralFlatness = 0\<rparr>"
  by (simp add: compute_basic_features_def)

lemma np_diff_replicate: "filter id (np_diff (replicate n b)) = []"
proof (induction n)
  case 0
  show ?case by simp
next
  case (Suc n)
  then show ?case by (cases n) simp_all
qed

lemma zero_crossings_silence: "zero_crossings (replicate n 0) = 0"
  by (simp add: zero_crossings_def np_diff_replicate)

lemma np_mean_zeros: "np_mean (replicate n 0) = 0"
  by (simp add: np_mean_def sum_list_replicate)

lemma spectral_flatness_total:
  "spectral_flatness l bins
     = Inr (if arith_mean bins > 0 then geom_mean l bins / arith_mean bins else 0)"
  by (simp add: spectral_flatness_def py_div_def)

lemma basic_nonempty:
  assumes "samples \<noteq> []" and "periodogram l samples sr = Inr bins"
  shows "compute_basic_features l samples sr =
     Inr \<lparr>rms = sqrt (np_mean (map (\<lambda>v. v\<^sup>2) samples)),
          zcr = (if length samples > 1
                 then real (zero_crossings samples) / real (length samples - 1) else 0),
          spectralCentroid = spectral_centroid bins,
          spectralFlatness =
            (if arith_mean bins > 0 then geom_mean l bins / arith_mean bins else 0)\<rparr>"
  using assms
  by (simp add: compute_basic_features_def py_div_def spectral_flatness_total Let_def)

lemma basic_periodogram_fails:
  assumes "samples \<noteq> []" and "periodogram l samples sr = Inl e"
  shows "compute_basic_features l samples sr = Inl e"
  using assms by (simp add: compute_basic_features_def py_div_def Let_def)











subsection \<open>Facts about the pitch, formant and perturbation chain\<close>

lemma arange_nonpos: "dur \<le> 0 \<Longrightarrow> arange dur = []"
  by (simp add: arange_def)

lemma length_arange: "length (arange dur) = nat \<lceil>dur / (1 / 100)\<rceil>"
  by (simp add: arange_def)

lemma pitch_f0_values_voiced:
  assumes "pitch_f0_values l pitch dur = Inr vs" and "vs \<noteq> []"
  shows "0 < dur"
proof (rule ccontr)
  assume "\<not> 0 < dur"
  then have "arange dur = []" by (simp add: arange_nonpos)
  then have "vs = []" using assms(1) by (simp add: pitch_f0_values_def split: if_splits)
  with assms(2) show False by simp
qed


lemma praat_analysis_Inr:
  assumes "praat_analysis l samples sr = Inr (r, out)"
  obtains sound pitch f0s where
    "Sound l samples sr = Inr sound" "to_pitch_ac l sound = Inr pitch"
    "pitch_f0_values l pitch (duration l sound) = Inr f0s"
    "f0_mean r = fst (f0_statistics f0s)" "f0_range r = snd (f0_statistics f0s)"
    "speech_rate r = estimate_speech_rate f0s (duration l sound)"
    "jitter r = fst (fst (perturbation l sound (duration l sound)))"
    "shimmer r = snd (fst (perturbation l sound (duration l sound)))"
  using assms
  by (auto simp: praat_analysis_def Let_def split: sum.splits prod.splits)

lemma extract_praat_fails:
  "praat_analysis l samples sr = Inl e \<Longrightarrow>
     extract_praat_features l samples sr = (praat_defaults, [PraatExtractionError e])"
  by (simp add: extract_praat_features_def)

lemma extract_praat_ok:
  "praat_analysis l samples sr = Inr (r, out) \<Longrightarrow> extract_praat_features l samples sr = (r, out)"
  by (simp add: extract_praat_features_def)

lemma estimate_speech_rate_range:
  "estimate_speech_rate f0s dur = 0 \<or>
   (80 \<le> estimate_speech_rate f0s dur \<and> estimate_speech_rate f0s dur \<le> 200)"
  by (simp add: estimate_speech_rate_def Let_def)

lemma estimate_speech_rate_voiced:
  "f0s \<noteq> [] \<Longrightarrow> 0 < dur \<Longrightarrow>
     estimate_speech_rate f0s dur
       = max 80 (min 200 (real (length f0s) * (1 / 100) / (1 / 2) / dur * 60))"
  by (simp add: estimate_speech_rate_def Let_def)

lemma voiced_f0_of_analysis:
  assumes "praat_analysis l samples sr = Inr (r, out)"
  obtains sound pitch where
    "Sound l samples sr = Inr sound" "to_pitch_ac l sound = Inr pitch"
    "pitch_f0_values l pitch (duration l sound) = Inr (voiced_f0 l samples sr)"
    "f0_mean r = fst (f0_statistics (voiced_f0 l samples sr))"
    "f0_range r = snd (f0_statistics (voiced_f0 l samples sr))"
    "speech_rate r = estimate_speech_rate (voiced_f0 l samples sr) (duration l sound)"
    "jitter r = fst (fst (perturbation l sound (duration l sound)))"
    "shimmer r = snd (fst (perturbation l sound (duration l sound)))"
proof -
  from assms obtain sound pitch f0s where h:
    "Sound l samples sr = Inr sound" "to_pitch_ac l sound = Inr pitch"
    "pitch_f0_values l pitch (duration l sound) = Inr f0s"
    "f0_mean r = fst (f0_statistics f0s)" "f0_range r = snd (f0_statistics f0s)"
    "speech_rate r = estimate_speech_rate f0s (duration l sound)"
    "jitter r = fst (fst (perturbation l sound (duration l sound)))"
    "shimmer r = snd (fst (perturbation l sound (duration l sound)))"
    by (rule praat_analysis_Inr)
  have "voiced_f0 l samples sr = f0s" using h(1-3) by (simp add: voiced_f0_def)
  with h that show ?thesis by simp
qed














subsection \<open>Facts about the route\<close>

lemma decode_short: "length data \<le> 44 \<Longrightarrow> decode_samples data = Inr []"
  by (simp add: decode_samples_def frombuffer_int16_def)

lemma decode_odd: "odd (length (drop 44 data)) \<Longrightarrow> decode_samples data = Inl frombuffer_error"
  by (simp add: decode_samples_def frombuffer_int16_def)



lemma extract_features_ok:
  assumes "data \<noteq> []" and "decode_samples data = Inr samples"
    and "compute_basic_features l samples 16000 = Inr b"
  shows "extract_features l (Some data) console =
           (Features \<lparr>basic = b, mfcc = compute_mfcc l samples 16000 13,
                      advanced = fst (extract_praat_features l samples 16000)\<rparr>,
            console @ snd (extract_praat_features l samples 16000)
              @ [FeatureReport b (take 5 (compute_mfcc l samples 16000 13))
                   (fst (extract_praat_features l samples 16000)) (length samples)])"
  using assms by (simp add: extract_features_def Let_def split: prod.splits)

lemma extract_features_basic_fails:
  assumes "data \<noteq> []" and "decode_samples data = Inr samples"
    and "compute_basic_features l samples 16000 = Inl e"
  shows "extract_features l (Some data) console = (ServerError e, console @ [RouteError e])"
  using assms by (simp add: extract_features_def)

lemma extract_features_decode_fails:
  assumes "data \<noteq> []" and "decode_samples data = Inl e"
  shows "extract_features l (Some data) console = (ServerError e, console @ [RouteError e])"
  using assms by (simp add: extract_features_def)

subsection \<open>The sample library\<close>

lemma sample_lib_sel:
  "np_fft (sample_lib pg f0 n j s) = numpy_fft"
  "periodogram (sample_lib pg f0 n j s) = pg"
  "np_log (sample_lib pg f0 n j s) = ln"
  "np_exp (sample_lib pg f0 n j s) = exp"
  "Sound (sample_lib pg f0 n j s) = (\<lambda>samples fs. Inr (real (length samples) / real_of_int fs))"
  "duration (sample_lib pg f0 n j s) = (\<lambda>sound. sound)"
  "to_pitch_ac (sample_lib pg f0 n j s) = (\<lambda>sound. Inr ())"
  "pitch_truthy (sample_lib pg f0 n j s) = (\<lambda>pitch. True)"
  "pitch_value_at_time (sample_lib pg f0 n j s) = (\<lambda>pitch t. Inr f0)"
  "to_formant_burg (sample_lib pg f0 n j s) = (\<lambda>sound. Inr ())"
  "formant_truthy (sample_lib pg f0 n j s) = (\<lambda>formant. True)"
  "formant_value_at_time (sample_lib pg f0 n j s) = (\<lambda>formant k t. Inr None)"
  "to_point_process (sample_lib pg f0 n j s) = (\<lambda>sound. Inr ())"
  "point_process_truthy (sample_lib pg f0 n j s) = (\<lambda>pp. True)"
  "number_of_points (sample_lib pg f0 n j s) = (\<lambda>pp. Inr n)"
  "get_jitter_local (sample_lib pg f0 n j s) = (\<lambda>pp dur. Inr j)"
  "get_shimmer_local (sample_lib pg f0 n j s) = (\<lambda>sound pp dur. Inr s)"
  by (simp_all add: sample_lib_def)

lemma np_fft_sample_lib: "np_fft (sample_lib pg f0 n j s) = numpy_fft"
  by (simp add: sample_lib_def)


lemma mfcc_empty_sample_lib:
  "compute_mfcc (sample_lib pg f0 n j s) [] sr 13 = replicate 13 0"
  by (simp add: compute_mfcc_def sample_lib_sel numpy_fft_def)

lemma collect_f0_none: "collect_f0 (\<lambda>t. Inr None) ts = Inr []"
  by (induction ts) (simp_all add: keep_positive_def)

lemma collect_f0_some:
  "0 < f \<Longrightarrow> collect_f0 (\<lambda>t. Inr (Some f)) ts = Inr (replicate (length ts) f)"
  by (induction ts) (simp_all add: keep_positive_def)

lemma collect_formants_none: "collect_formants (\<lambda>k t. Inr None) ts = Inr ([], [])"
  by (induction ts) (simp_all add: keep_positive_def)

lemma perturbation_sample_lib:
  "perturbation (sample_lib pg f0 n j s) sound dur =
     ((if n > 1 then j * 100 else 0, if n > 1 then s * 100 else 0), [])"
  by (simp add: perturbation_def sample_lib_sel)

lemma pitch_f0_values_sample_lib:
  "pitch_f0_values (sample_lib pg f0 n j s) pitch dur =
     Inr (case f0 of None \<Rightarrow> []
          | Some f \<Rightarrow> if 0 < f then replicate (length (arange dur)) f else [])"
proof (cases f0)
  case None
  then show ?thesis by (simp add: pitch_f0_values_def sample_lib_sel collect_f0_none)
next
  case (Some f)
  have "collect_f0 (\<lambda>t. Inr (Some f)) ts = Inr []" if "\<not> 0 < f" for ts
    using that by (induction ts) (simp_all add: keep_positive_def)
  with Some show ?thesis
    by (simp add: pitch_f0_values_def sample_lib_sel collect_f0_some)
qed

lemma voiced_f0_sample_lib:
  "voiced_f0 (sample_lib pg f0 n j s) samples sr =
     (case f0 of None \<Rightarrow> []
      | Some f \<Rightarrow>
          if 0 < f
          then replicate (length (arange (real (length samples) / real_of_int sr))) f
          else [])"
  by (simp add: voiced_f0_def sample_lib_sel pitch_f0_values_sample_lib)

lemma praat_analysis_sample_lib:
  "praat_analysis (sample_lib pg f0 n j s) samples sr =
     Inr (\<lparr>f0_mean = fst (f0_statistics (voiced_f0 (sample_lib pg f0 n j s) samples sr)),
           f0_range = snd (f0_statistics (voiced_f0 (sample_lib pg f0 n j s) samples sr)),
           jitter = (if n > 1 then j * 100 else 0),
           shimmer = (if n > 1 then s * 100 else 0),
           f1 = 0, f2 = 0,
           speech_rate = estimate_speech_rate (voiced_f0 (sample_lib pg f0 n j s) samples sr)
                           (real (length samples) / real_of_int sr)\<rparr>, [])"
  by (simp add: praat_analysis_def voiced_f0_sample_lib pitch_f0_values_sample_lib
        perturbation_sample_lib formant_values_def collect_formants_none formant_mean_def
        sample_lib_sel Let_def)

lemma praat_empty_sample_lib:
  "extract_praat_features (sample_lib pg None 0 j s) [] 16000 = (praat_defaults, [])"
  by (simp add: extract_praat_features_def praat_analysis_def sample_lib_sel
        pitch_f0_values_def formant_values_def arange_nonpos perturbation_def
        f0_statistics_def formant_mean_def estimate_speech_rate_def praat_defaults_def)






subsection \<open>Empty input (claim C1)\<close>

text \<open>
  Claim C1, as stated, fails for a non-empty buffer of 44 bytes or fewer. A one-byte
  upload passes the test \<^verbatim>\<open>if not data\<close>, its post-header region \<^verbatim>\<open>data[44:]\<close> is
  empty, and the route answers with a feature record: the basic features are the zeros of
  the early return for an empty array, \<^verbatim>\<open>np.fft.fft\<close> rejects the empty array so that
  \<^verbatim>\<open>mfcc\<close> is the zero vector, and the sample library finds no frame and no pulse.
\<close>

theorem short_buffer_counterexample:
  "[0] \<noteq> ([] :: byte list) \<and> drop 44 [0 :: byte] = [] \<and>
   fst (extract_features (sample_lib zero_power_periodogram None 0 0 0) (Some [0]) []) =
     Features \<lparr>basic = \<lparr>rms = 0, zcr = 0, spectralCentroid = 0, spectralFlatness = 0\<rparr>,
               mfcc = replicate 13 0, advanced = praat_defaults\<rparr>"
proof -
  have d: "decode_samples [0] = Inr []" by (rule decode_short) simp
  have ne: "[0] \<noteq> ([] :: byte list)" by simp
  show ?thesis
    by (simp add: extract_features_ok [OF ne d basic_empty] praat_empty_sample_lib
          mfcc_empty_sample_lib)
qed

text \<open>
  Claim C1, as amended. Only the upload of zero bytes is rejected as empty input: the
  response is the client error \<^verbatim>\<open>empty file\<close>, whatever the libraries would compute, and
  nothing is printed. A non-empty buffer of 44 bytes or fewer has no post-header sample
  and is not rejected: the route returns a feature record whose four basic features are 0
  and whose \<^verbatim>\<open>mfcc\<close> has 13 coefficients.
\<close>

theorem empty_input_handling:
  "extract_features l (Some []) console = (ClientError ''empty file'', console) \<and>
   (data \<noteq> [] \<and> length data \<le> 44 \<longrightarrow>
      (\<exists>r. fst (extract_features l (Some data) console) = Features r \<and>
           basic r = \<lparr>rms = 0, zcr = 0, spectralCentroid = 0, spectralFlatness = 0\<rparr> \<and>
           length (mfcc r) = 13))"
proof -
  have a: "extract_features l (Some []) console = (ClientError ''empty file'', console)"
    by (simp add: extract_features_def)
  have b: "\<exists>r. fst (extract_features l (Some data) console) = Features r \<and>
           basic r = \<lparr>rms = 0, zcr = 0, spectralCentroid = 0, spectralFlatness = 0\<rparr> \<and>
           length (mfcc r) = 13"
    if "data \<noteq> []" and "length data \<le> 44"
    using extract_features_ok [OF that(1) decode_short [OF that(2)] basic_empty, of l console]
    by (simp add: compute_mfcc_def split: sum.splits)
  from a b show ?thesis by blast
qed

theorem empty_input_handling_witness:
  "\<exists>r. fst (extract_features (sample_lib zero_power_periodogram None 0 0 0) (Some [0]) [])
          = Features r \<and>
        basic r = \<lparr>rms = 0, zcr = 0, spectralCentroid = 0, spectralFlatness = 0\<rparr> \<and>
        length (mfcc r) = 13"
  using empty_input_handling [of "sample_lib zero_power_periodogram None 0 0 0" "[]" "[0]"]
  by simp

subsection \<open>Failure isolation (claim C2)\<close>



subsection \<open>Speech rate (claim C3)\<close>

text \<open>
  Claim C3, as stated, fails when no frame is voiced: \<^verbatim>\<open>speech_rate\<close> keeps its initial
  value 0, which is outside \<open>[80, 200]\<close>. Here a clip of 320 samples (0.02 s, two
  frames) in which the library reports no pitch.
\<close>

theorem speech_rate_zero_counterexample:
  "voiced_f0 (sample_lib zero_power_periodogram None 0 0 0) (replicate 320 0) 16000 = [] \<and>
   speech_rate (fst (extract_praat_features (sample_lib zero_power_periodogram None 0 0 0)
                       (replicate 320 0) 16000)) = 0"
  by (simp add: extract_praat_features_def praat_analysis_sample_lib voiced_f0_sample_lib
        estimate_speech_rate_def)

text \<open>
  Claim C3, as amended. The returned \<^verbatim>\<open>speech_rate\<close> is 0 or lies in \<open>[80, 200]\<close>.
  It is 0 when no frame is voiced and when the pitch/formant chain fails. When the chain
  succeeds with at least one voiced frame, the duration is positive and the value is
  \<open>voicedFrames * 0.01 / 0.5 / duration * 60\<close> clamped to \<open>[80, 200]\<close>, however large the
  number of voiced frames.
\<close>

theorem speech_rate_range:
  "(speech_rate (fst (extract_praat_features l samples sr)) = 0 \<or>
    (80 \<le> speech_rate (fst (extract_praat_features l samples sr)) \<and>
     speech_rate (fst (extract_praat_features l samples sr)) \<le> 200)) \<and>
   (praat_analysis l samples sr = Inr (r, out) \<and> Sound l samples sr = Inr sound \<and>
    voiced_f0 l samples sr \<noteq> [] \<longrightarrow>
      0 < duration l sound \<and>
      speech_rate (fst (extract_praat_features l samples sr)) =
        max 80 (min 200
          (real (length (voiced_f0 l samples sr)) * (1 / 100) / (1 / 2)
             / duration l sound * 60))) \<and>
   (voiced_f0 l samples sr = [] \<longrightarrow>
      speech_rate (fst (extract_praat_features l samples sr)) = 0) \<and>
   (praat_analysis l samples sr = Inl e \<longrightarrow>
      speech_rate (fst (extract_praat_features l samples sr)) = 0)"
proof -
  have fail: "speech_rate (fst (extract_praat_features l samples sr)) = 0"
    if "praat_analysis l samples sr = Inl e'" for e'
    using that by (simp add: extract_praat_fails praat_defaults_def)
  have ok: "speech_rate (fst (extract_praat_features l samples sr)) =
              estimate_speech_rate (voiced_f0 l samples sr) (duration l sound')"
    if "praat_analysis l samples sr = Inr (r', out')" and "Sound l samples sr = Inr sound'"
    for r' out' sound'
    using that by (auto elim!: voiced_f0_of_analysis simp: extract_praat_ok)
  have a: "speech_rate (fst (extract_praat_features l samples sr)) = 0 \<or>
    (80 \<le> speech_rate (fst (extract_praat_features l samples sr)) \<and>
     speech_rate (fst (extract_praat_features l samples sr)) \<le> 200)"
  proof (cases "praat_analysis l samples sr")
    case (Inl e')
    then show ?thesis by (simp add: fail)
  next
    case (Inr p)
    obtain r' out' where p: "p = (r', out')" by (cases p)
    from Inr p obtain sound' where s: "Sound l samples sr = Inr sound'"
      by (auto elim: voiced_f0_of_analysis)
    show ?thesis
      using estimate_speech_rate_range [of "voiced_f0 l samples sr" "duration l sound'"]
      by (simp add: ok [OF Inr [unfolded p] s])
  qed
  have b: "0 < duration l sound \<and>
      speech_rate (fst (extract_praat_features l samples sr)) =
        max 80 (min 200
          (real (length (voiced_f0 l samples sr)) * (1 / 100) / (1 / 2)
             / duration l sound * 60))"
    if an: "praat_analysis l samples sr = Inr (r, out)" and s: "Sound l samples sr = Inr sound"
      and v: "voiced_f0 l samples sr \<noteq> []"
  proof -
    from an s obtain pitch where
      "pitch_f0_values l pitch (duration l sound) = Inr (voiced_f0 l samples sr)"
      by (auto elim: voiced_f0_of_analysis)
    then have d: "0 < duration l sound" using v by (rule pitch_f0_values_voiced)
    show ?thesis
      using d by (simp add: ok [OF an s] estimate_speech_rate_voiced [OF v d])
  qed
  have c: "speech_rate (fst (extract_praat_features l samples sr)) = 0"
    if v: "voiced_f0 l samples sr = []"
  proof (cases "praat_analysis l samples sr")
    case (Inl e')
    then show ?thesis by (simp add: fail)
  next
    case (Inr p)
    obtain r' out' where p: "p = (r', out')" by (cases p)
    from Inr p obtain sound' where s: "Sound l samples sr = Inr sound'"
      by (auto elim: voiced_f0_of_analysis)
    show ?thesis
      by (simp add: ok [OF Inr [unfolded p] s] v estimate_speech_rate_def)
  qed
  from a b c fail show ?thesis by blast
qed

theorem speech_rate_range_witness:
  "speech_rate (fst (extract_praat_features (sample_lib zero_power_periodogram (Some 120) 0 0 0)
                       (replicate 320 0) 16000)) = 120"
proof -
  let ?l = "sample_lib zero_power_periodogram (Some 120) 0 0 0"
  have v: "voiced_f0 ?l (replicate 320 0) 16000 = [120, 120]"
    by (simp add: voiced_f0_sample_lib length_arange numeral_2_eq_2)
  have s: "Sound ?l (replicate 320 0) 16000 = Inr (1 / 50)"
    by (simp add: sample_lib_sel)
  have d: "duration ?l (1 / 50) = 1 / 50" by (simp add: sample_lib_sel)
  from speech_rate_range [where l = ?l and samples = "replicate 320 0" and sr = 16000
      and sound = "1 / 50" and out = "[]"]
    praat_analysis_sample_lib [of zero_power_periodogram "Some 120" 0 0 0 "replicate 320 0" 16000]
  show ?thesis by (simp add: v s d)
qed

subsection \<open>Number of cepstral coefficients (claim C4)\<close>

text \<open>
  Claim C4. For every sample array and every behaviour of the Fourier transform,
  \<^verbatim>\<open>compute_mfcc\<close> with the configured count 13 returns exactly 13 coefficients.
  When the transform raises, they are the zero vector of length 13. Otherwise, with
  \<open>L\<close> the half length of the transform, coefficient \<open>i\<close> is the sum of the magnitudes
  \<open>|fft[k]|\<close> for \<open>k\<close> from \<open>\<lfloor>i * L / 13\<rfloor>\<close> up to \<open>\<lfloor>(i + 1) * L / 13\<rfloor>\<close>
  (excluded), divided by the number of these indices: the mean of band \<open>i\<close>, and 0 for
  a band without index.
\<close>

theorem compute_mfcc_thirteen:
  "length (compute_mfcc l samples sr 13) = 13 \<and>
   (case np_fft l samples of
      Inl e \<Rightarrow> compute_mfcc l samples sr 13 = replicate 13 0
    | Inr fft \<Rightarrow>
        compute_mfcc l samples sr 13 =
          map (\<lambda>i. if i * (length fft div 2) div 13 < (i + 1) * (length fft div 2) div 13
                   then (\<Sum>k = i * (length fft div 2) div 13..<
                                 (i + 1) * (length fft div 2) div 13. cmod (fft ! k))
                          / real ((i + 1) * (length fft div 2) div 13
                                    - i * (length fft div 2) div 13)
                   else 0)
            [0..<13])"
proof (cases "np_fft l samples")
  case (Inl e)
  then show ?thesis by (simp add: compute_mfcc_def)
next
  case (Inr fft)
  have "map (band_coeff (fft_magnitude fft) 13) [0..<13] =
          map (\<lambda>i. if i * (length fft div 2) div 13 < (i + 1) * (length fft div 2) div 13
                   then (\<Sum>k = i * (length fft div 2) div 13..<
                                 (i + 1) * (length fft div 2) div 13. cmod (fft ! k))
                          / real ((i + 1) * (length fft div 2) div 13
                                    - i * (length fft div 2) div 13)
                   else 0)
            [0..<13]"
    by (rule map_cong [OF refl]) (simp add: band_coeff_explicit)
  then show ?thesis using Inr by (simp add: compute_mfcc_def)
qed

subsection \<open>Cepstral bands (claim C5)\<close>

text \<open>
  Claim C5, as stated, fails where it says that the 13 bands are of equal width: the
  lower half of a 28-point transform has 14 magnitudes, band 0 holds one of them and
  band 12 holds two.
\<close>

theorem equal_width_bands_counterexample:
  "np_fft (sample_lib zero_power_periodogram None 0 0 0) (replicate 28 0)
     = Inr (dft (replicate 28 0)) \<and>
   length (fft_magnitude (dft (replicate 28 0))) = 14 \<and>
   band_width 14 13 0 = 1 \<and> band_width 14 13 12 = 2"
  by (simp add: np_fft_sample_lib numpy_fft_def length_fft_magnitude length_dft
        band_width_def band_end_def band_start_def)

text \<open>
  Claim C5, as amended. When the transform succeeds, the 13 bands
  \<open>[\<lfloor>i * L / 13\<rfloor>, \<lfloor>(i + 1) * L / 13\<rfloor>)\<close> are contiguous, lie inside the lower-half
  magnitude array of length \<open>L\<close> and cover it in order; every band has width
  \<open>L div 13\<close> or \<open>L div 13 + 1\<close>, and all have width \<open>L div 13\<close> exactly when 13
  divides \<open>L\<close>; coefficient \<open>i\<close> is the arithmetic mean of the magnitudes of band
  \<open>i\<close>, or 0 when the band is empty.
\<close>

theorem mfcc_bands:
  assumes fft: "np_fft l samples = Inr fft"
    and m: "m = fft_magnitude fft"
    and L: "L = length m"
  shows "band_start L 13 0 = 0 \<and> band_end L 13 12 = L \<and>
    (\<forall>i<12. band_end L 13 i = band_start L 13 (i + 1)) \<and>
    (\<forall>i<13. band_start L 13 i \<le> band_end L 13 i \<and> band_end L 13 i \<le> L) \<and>
    concat (map (\<lambda>i. slice m (band_start L 13 i) (band_end L 13 i)) [0..<13]) = m \<and>
    (\<forall>i<13. band_width L 13 i = L div 13 \<or> band_width L 13 i = L div 13 + 1) \<and>
    ((\<forall>i<13. band_width L 13 i = L div 13) \<longleftrightarrow> 13 dvd L) \<and>
    (\<forall>i<13. compute_mfcc l samples sr 13 ! i =
       (if band_start L 13 i < band_end L 13 i
        then np_mean (slice m (band_start L 13 i) (band_end L 13 i)) else 0))"
proof -
  have a: "band_start L 13 0 = 0" by (rule band_start_zero)
  have b: "band_end L 13 12 = L" using band_end_last [of 13 L] by simp
  have c: "\<forall>i<12. band_end L 13 i = band_start L 13 (i + 1)"
    by (simp add: band_end_is_next_start)
  have d: "\<forall>i<13. band_start L 13 i \<le> band_end L 13 i \<and> band_end L 13 i \<le> L"
    by (simp add: band_start_le_end band_end_le)
  have "concat (map (\<lambda>i. slice m (band_start L 13 i) (band_end L 13 i)) [0..<13])
          = take (band_start L 13 13) m"
    by (rule slices_concat)
  also have "band_start L 13 13 = L" by (simp add: band_start_def)
  finally have e: "concat (map (\<lambda>i. slice m (band_start L 13 i) (band_end L 13 i)) [0..<13]) = m"
    by (simp add: L)
  have f: "\<forall>i<13. band_width L 13 i = L div 13 \<or> band_width L 13 i = L div 13 + 1"
    using band_width_bounds [of 13 L] by simp
  have g: "(\<forall>i<13. band_width L 13 i = L div 13) \<longleftrightarrow> 13 dvd L"
    using equal_widths_iff [of 13 L] by simp
  have h: "\<forall>i<13. compute_mfcc l samples sr 13 ! i =
       (if band_start L 13 i < band_end L 13 i
        then np_mean (slice m (band_start L 13 i) (band_end L 13 i)) else 0)"
    by (simp add: compute_mfcc_def fft m L band_coeff_def Let_def)
  from a b c d e f g h show ?thesis by blast
qed

theorem mfcc_bands_witness:
  "band_end 14 13 12 = 14 \<and>
   concat (map (\<lambda>i. slice (fft_magnitude (dft (replicate 28 0)))
                      (band_start 14 13 i) (band_end 14 13 i)) [0..<13])
     = fft_magnitude (dft (replicate 28 0))"
proof -
  have 1: "np_fft (sample_lib zero_power_periodogram None 0 0 0) (replicate 28 0)
             = Inr (dft (replicate 28 0))"
    by (simp add: np_fft_sample_lib numpy_fft_def)
  have 2: "(14::nat) = length (fft_magnitude (dft (replicate 28 0)))"
    by (simp add: length_fft_magnitude length_dft)
  from mfcc_bands [OF 1 refl 2] show ?thesis by blast
qed

subsection \<open>No voiced frames (claim C6)\<close>




subsection \<open>Silence (claim C7)\<close>

text \<open>
  Claim C7. For the all-zero waveform of any non-zero length, the basic analyser raises
  only if the periodogram call itself raises; otherwise it returns a record with
  \<^verbatim>\<open>rms\<close> = 0 and \<^verbatim>\<open>zcr\<close> = 0 whose flatness is the guarded quotient of the geometric
  and the arithmetic mean: the division is never by zero.
\<close>

theorem silence_basic_features:
  assumes "0 < n"
  shows "compute_basic_features l (replicate n 0) sr =
     (case periodogram l (replicate n 0) sr of
        Inl e \<Rightarrow> Inl e
      | Inr bins \<Rightarrow>
          Inr \<lparr>rms = 0, zcr = 0, spectralCentroid = spectral_centroid bins,
               spectralFlatness =
                 (if arith_mean bins > 0 then geom_mean l bins / arith_mean bins else 0)\<rparr>)"
proof (cases "periodogram l (replicate n 0) sr")
  case (Inl e)
  then show ?thesis using assms by (simp add: basic_periodogram_fails)
next
  case (Inr bins)
  have ne: "replicate n (0::real) \<noteq> []" using assms by simp
  show ?thesis
    by (simp add: basic_nonempty [OF ne Inr] Inr np_mean_zeros zero_crossings_silence)
qed

theorem silence_basic_features_witness:
  "\<exists>r. compute_basic_features (sample_lib zero_power_periodogram None 0 0 0)
          (replicate 2 0) 16000 = Inr r \<and> rms r = 0 \<and> zcr r = 0"
  using silence_basic_features
    [of 2 "sample_lib zero_power_periodogram None 0 0 0" 16000]
  by (simp add: sample_lib_sel zero_power_periodogram_def)

subsection \<open>The floor of the periodogram (claim C9)\<close>




subsection \<open>Odd payload (claim C10)\<close>

text \<open>
  Claim C10. For every upload whose post-header region has odd length, decoding raises
  the \<^verbatim>\<open>ValueError\<close> of \<^verbatim>\<open>np.frombuffer\<close>; the handler of the route catches it, and the
  response is a server error carrying that error, with no feature record.
\<close>

theorem odd_payload_server_error:
  assumes "odd (length (drop 44 data))"
  shows "extract_features l (Some data) console
           = (ServerError frombuffer_error, console @ [RouteError frombuffer_error])"
proof -
  have "data \<noteq> []" using assms by auto
  then show ?thesis by (rule extract_features_decode_fails) (rule decode_odd [OF assms])
qed

theorem odd_payload_server_error_witness:
  "extract_features (sample_lib zero_power_periodogram None 0 0 0) (Some (replicate 45 0)) []
     = (ServerError frombuffer_error, [RouteError frombuffer_error])"
  using odd_payload_server_error
    [of "replicate 45 0" "sample_lib zero_power_periodogram None 0 0 0" "[]"]
  by simp

end
